theory Spec2Isabelle
  imports Main
begin

section \<open>The HTTP streaming endpoint of \<^verbatim>\<open>api/routes/http_stream.py\<close>\<close>

text \<open>
  A shallow embedding of \<^verbatim>\<open>http_stream_chat\<close> and \<^verbatim>\<open>stream_llm_response\<close>.
  A Python \<^verbatim>\<open>str\<close> is a \<^typ>\<open>string\<close>, one \<^typ>\<open>char\<close> per character (so the model
  covers the characters below 256); \<^verbatim>\<open>len\<close> is \<^const>\<open>length\<close>. An exception is a value
  carrying its text \<^verbatim>\<open>str(e)\<close>; a call that may raise returns a sum, \<open>Inl\<close> the exception.
  The asynchronous generator is run to exhaustion: its result lists the events it yields in
  order, the calls it makes to the message store and the lines it logs.

  The exceptions of the model are those of the collaborators: the lookups, the prompt
  builder, the LLM stream (when it is opened or between two fragments), the block that
  derives the title, and \<^verbatim>\<open>update_message\<close>. The calls of \<^verbatim>\<open>json.dumps\<close> and of the logger
  and the \<^verbatim>\<open>yield\<close>s themselves are taken not to raise, every fragment is a \<^verbatim>\<open>str\<close>, and
  the consumer reads the generator to its end.
\<close>

subsection \<open>Exceptions, documents and the request\<close>

datatype exn = Exception string

fun str :: "exn \<Rightarrow> string" where
  "str (Exception m) = m"

text \<open>
  What an \<^verbatim>\<open>await\<close> can raise: an exception of the class \<^verbatim>\<open>Exception\<close>, which a handler
  \<^verbatim>\<open>except Exception\<close> catches, or a \<^verbatim>\<open>BaseException\<close> outside that class, which it does not
  catch (\<^verbatim>\<open>asyncio.CancelledError\<close>, raised at the \<^verbatim>\<open>await\<close> when the task of the request is
  cancelled, is one). The argument of \<open>BaseOnly\<close> is the text of the exception.
\<close>

datatype raised = Ordinary exn | BaseOnly string

text \<open>An account or chat document is a dict; only \<^verbatim>\<open>.get\<close> and its truth value are used.\<close>

type_synonym py_dict = "(string \<times> string) list"

definition get :: "py_dict \<Rightarrow> string \<Rightarrow> string option" where
  "get d k = map_of d k"

definition get_default :: "py_dict \<Rightarrow> string \<Rightarrow> string \<Rightarrow> string" where
  "get_default d k dflt = (case map_of d k of None \<Rightarrow> dflt | Some v \<Rightarrow> v)"

text \<open>\<^verbatim>\<open>not x\<close> for \<^verbatim>\<open>x\<close> a dict or \<^verbatim>\<open>None\<close>: true for \<^verbatim>\<open>None\<close> and for the empty dict.\<close>

fun falsy :: "py_dict option \<Rightarrow> bool" where
  "falsy None = True"
| "falsy (Some d) = (d = [])"

record StreamRequest =
  message :: string
  account_id :: string
  conversation_id :: string
  original_message_id :: string

subsection \<open>\<^verbatim>\<open>json.dumps\<close> on the values the module serialises\<close>

datatype json = JStr string | JObj "(string \<times> json) list"

definition hex_digit :: "nat \<Rightarrow> char" where
  "hex_digit n = ''0123456789abcdef'' ! (n mod 16)"

text \<open>
  The default \<^verbatim>\<open>ensure_ascii=True\<close> encoder: the quote and the backslash are escaped, the
  printable ASCII characters stand for themselves, the five short escapes are used and every
  other character is written \<^verbatim>\<open>\u00XX\<close>.
\<close>

definition escape_char :: "char \<Rightarrow> string" where
  "escape_char c =
     (if c = CHR 0x22 then [CHR 0x5C, CHR 0x22]
      else if c = CHR 0x5C then [CHR 0x5C, CHR 0x5C]
      else if c = CHR 0x0A then [CHR 0x5C, CHR ''n'']
      else if c = CHR 0x0D then [CHR 0x5C, CHR ''r'']
      else if c = CHR 0x09 then [CHR 0x5C, CHR ''t'']
      else if c = CHR 0x08 then [CHR 0x5C, CHR ''b'']
      else if c = CHR 0x0C then [CHR 0x5C, CHR ''f'']
      else if 0x20 \<le> (of_char c :: nat) \<and> (of_char c :: nat) \<le> 0x7E then [c]
      else [CHR 0x5C, CHR ''u'', CHR ''0'', CHR ''0'',
            hex_digit ((of_char c :: nat) div 16), hex_digit (of_char c :: nat)])"

definition dumps_str :: "string \<Rightarrow> string" where
  "dumps_str s = [CHR 0x22] @ concat (map escape_char s) @ [CHR 0x22]"

fun join :: "string \<Rightarrow> string list \<Rightarrow> string" where
  "join sep [] = []"
| "join sep [x] = x"
| "join sep (x # y # ys) = x @ sep @ join sep (y # ys)"

fun json_dumps :: "json \<Rightarrow> string" where
  "json_dumps (JStr s) = dumps_str s"
| "json_dumps (JObj kvs) =
     ''{'' @ join '', '' (map (\<lambda>kv. dumps_str (fst kv) @ '': '' @ json_dumps (snd kv)) kvs) @ ''}''"

subsection \<open>Server-sent events\<close>

text \<open>
  The five dicts the generator serialises, by their \<^verbatim>\<open>type\<close>; the argument is the one
  field of \<^verbatim>\<open>data\<close> (\<^verbatim>\<open>text\<close>, \<^verbatim>\<open>title\<close>, \<^verbatim>\<open>text\<close>, \<^verbatim>\<open>message\<close>).
\<close>

datatype sse_event =
    Start
  | Chunk string
  | Summary string
  | Complete string
  | Error string

fun event_json :: "sse_event \<Rightarrow> json" where
  "event_json Start = JObj [(''type'', JStr ''start''), (''data'', JObj [])]"
| "event_json (Chunk b) = JObj [(''type'', JStr ''chunk''), (''data'', JObj [(''text'', JStr b)])]"
| "event_json (Summary t) = JObj [(''type'', JStr ''summary''), (''data'', JObj [(''title'', JStr t)])]"
| "event_json (Complete r) = JObj [(''type'', JStr ''complete''), (''data'', JObj [(''text'', JStr r)])]"
| "event_json (Error m) = JObj [(''type'', JStr ''error''), (''data'', JObj [(''message'', JStr m)])]"

text \<open>The bytes of one frame: \<^verbatim>\<open>f"data: {event}\n\n".encode('utf-8')\<close>, the JSON being ASCII.\<close>

definition sse_frame :: "sse_event \<Rightarrow> string" where
  "sse_frame ev = ''data: '' @ json_dumps (event_json ev) @ [CHR 0x0A, CHR 0x0A]"

subsection \<open>Collaborators, logging and the message store\<close>

datatype log_level = INFO | WARNING | EXCEPTION

type_synonym log_entry = "log_level \<times> string"

text \<open>
  One call \<^verbatim>\<open>update_message(message_id=..., **fields)\<close>: the id and the keyword arguments in
  the order of the dict.
\<close>

record update_call =
  message_id :: string
  kwargs :: "(string \<times> string) list"

text \<open>
  The functions imported from \<^verbatim>\<open>api.routes.chat\<close> and \<^verbatim>\<open>db\<close> are parameters. The LLM stream
  is the finite list of fragments it yields, followed by its normal end (\<open>None\<close>) or by what
  awaiting its next fragment raises. \<open>title_fault\<close> is an exception raised while the block
  that derives the title is evaluated, if any; \<open>update_message\<close> returns the exception it
  raises, if any. These two and the lookups are synchronous calls, whose exceptions are of the
  class \<^verbatim>\<open>Exception\<close>; the only \<^verbatim>\<open>await\<close> of the module is the \<^verbatim>\<open>async for\<close> over the stream.
\<close>

record env =
  get_account :: "string \<Rightarrow> exn + py_dict option"
  get_chat :: "string \<Rightarrow> exn + py_dict option"
  get_recent_messages :: "string \<Rightarrow> exn + py_dict list"
  build_prompt :: "string \<Rightarrow> py_dict list \<Rightarrow> string list \<Rightarrow> string option \<Rightarrow> exn + string"
  run_llm_stream :: "string \<Rightarrow> string \<Rightarrow> string list \<times> raised option"
  title_fault :: "exn option"
  update_message :: "string \<Rightarrow> (string \<times> string) list \<Rightarrow> exn option"

subsection \<open>The streaming loop\<close>

record loop_state =
  buffer :: string
  buffer_size :: nat
  full_response :: string
  chunk_counter :: nat
  yielded :: "sse_event list"

definition max_buffer_size :: nat where
  "max_buffer_size = 5"

definition flush_now :: "nat \<Rightarrow> string \<Rightarrow> bool" where
  "flush_now n chunk =
     (n \<ge> max_buffer_size \<or> CHR ''.'' \<in> set chunk \<or> CHR 0x0A \<in> set chunk
        \<or> CHR ''?'' \<in> set chunk \<or> CHR ''!'' \<in> set chunk)"

text \<open>The body of \<^verbatim>\<open>async for chunk in run_llm_stream(...)\<close>.\<close>

definition loop_body :: "string \<Rightarrow> loop_state \<Rightarrow> loop_state" where
  "loop_body chunk s =
     (let s1 = s\<lparr>buffer := buffer s @ chunk,
                 full_response := full_response s @ chunk,
                 buffer_size := buffer_size s + 1\<rparr>
      in if flush_now (buffer_size s1) chunk
         then s1\<lparr>yielded := yielded s1 @ [Chunk (buffer s1)],
                 buffer := [],
                 buffer_size := 0,
                 chunk_counter := chunk_counter s1 + 1\<rparr>
         else s1)"

fun stream_chunks :: "loop_state \<Rightarrow> string list \<Rightarrow> loop_state" where
  "stream_chunks s [] = s"
| "stream_chunks s (chunk # rest) = stream_chunks (loop_body chunk s) rest"

text \<open>The state when the loop is entered: the start event has been yielded.\<close>

definition loop_init :: loop_state where
  "loop_init = \<lparr>buffer = [], buffer_size = 0, full_response = [], chunk_counter = 0,
                yielded = [Start]\<rparr>"

subsection \<open>Title derivation\<close>

text \<open>\<^verbatim>\<open>s.split(sep)\<close> for a separator of one character; the result is never empty.\<close>

fun split :: "char \<Rightarrow> string \<Rightarrow> string list" where
  "split sep [] = [[]]"
| "split sep (c # cs) =
     (if c = sep then [] # split sep cs
      else (case split sep cs of [] \<Rightarrow> [[c]] | w # ws \<Rightarrow> (c # w) # ws))"

definition replace :: "char \<Rightarrow> char \<Rightarrow> string \<Rightarrow> string" where
  "replace old new s = map (\<lambda>c. if c = old then new else c) s"

text \<open>The body of the \<^verbatim>\<open>try\<close> block, started from \<^verbatim>\<open>title = None\<close>.\<close>

definition derive_title :: "string \<Rightarrow> string option" where
  "derive_title full =
     (if length full > 10
      then (let title = take 50 (hd (split (CHR 0x0A) full))
            in if length title < 10
               then Some (replace (CHR 0x0A) (CHR '' '') (take 50 full))
               else Some title)
      else None)"

text \<open>The block with its handler: a failure is logged and the title is \<^verbatim>\<open>None\<close>.\<close>

definition create_summary :: "env \<Rightarrow> string \<Rightarrow> string option \<times> log_entry list" where
  "create_summary E full =
     (case title_fault E of
        Some e \<Rightarrow> (None, [(EXCEPTION, ''Error creating summary: '' @ str e)])
      | None \<Rightarrow> (derive_title full, []))"

text \<open>\<^verbatim>\<open>if title:\<close> is true for a string that is not empty.\<close>

fun summary_events :: "string option \<Rightarrow> sse_event list" where
  "summary_events None = []"
| "summary_events (Some t) = (if t = [] then [] else [Summary t])"

subsection \<open>Persistence\<close>

text \<open>The dict comprehension that drops \<^verbatim>\<open>None\<close> and \<^verbatim>\<open>""\<close> values.\<close>

fun clean :: "(string \<times> string option) list \<Rightarrow> (string \<times> string) list" where
  "clean [] = []"
| "clean ((k, None) # kvs) = clean kvs"
| "clean ((k, Some v) # kvs) = (if v = [] then clean kvs else (k, v) # clean kvs)"

definition persist :: "env \<Rightarrow> string \<Rightarrow> string \<Rightarrow> string option \<Rightarrow> update_call list \<times> log_entry list" where
  "persist E mid full title =
     (if mid = []
      then ([], [(WARNING,
              ''original_message_id was not provided to stream_llm_response. Cannot update message.'')])
      else (let update_data = [(''response'', Some full), (''title'', title)];
                update_data_cleaned = clean update_data
            in if update_data_cleaned = [] then ([], [])
               else (case update_message E mid update_data_cleaned of
                       None \<Rightarrow>
                         ([\<lparr>message_id = mid, kwargs = update_data_cleaned\<rparr>],
                          [(INFO, ''Updated message '' @ mid @ '' with full response and title.'')])
                     | Some e \<Rightarrow>
                         ([\<lparr>message_id = mid, kwargs = update_data_cleaned\<rparr>],
                          [(EXCEPTION, ''Error updating message '' @ mid @ '': '' @ str e)]))))"

subsection \<open>The generator\<close>

text \<open>
  A run of the generator: the events yielded, the calls made to the store, the lines logged
  and the exception that leaves the generator, if one does.
\<close>

record gen_result =
  events :: "sse_event list"
  updates :: "update_call list"
  logged :: "log_entry list"
  escaped :: "raised option"

text \<open>
  The handler at the end of \<^verbatim>\<open>stream_llm_response\<close> is \<^verbatim>\<open>except Exception\<close>: an exception of
  that class raised by the stream is logged and sent as the error event; any other leaves
  the generator as it is, after the events already yielded.
\<close>

definition stream_llm_response ::
  "env \<Rightarrow> string \<Rightarrow> string \<Rightarrow> string \<Rightarrow> string \<Rightarrow> string \<Rightarrow> gen_result" where
  "stream_llm_response E prompt aid cid mid profile =
     (let (fragments, failure) = run_llm_stream E prompt profile;
          s = stream_chunks loop_init fragments
      in case failure of
           Some (Ordinary e) \<Rightarrow>
             \<lparr>events = yielded s @ [Error (str e)],
              updates = [],
              logged = [(EXCEPTION, ''Error in stream_llm_response: '' @ str e)],
              escaped = None\<rparr>
         | Some (BaseOnly m) \<Rightarrow>
             \<lparr>events = yielded s,
              updates = [],
              logged = [],
              escaped = Some (BaseOnly m)\<rparr>
         | None \<Rightarrow>
             (let (title, log1) = create_summary E (full_response s);
                  (calls, log2) = persist E mid (full_response s) title
              in \<lparr>events = yielded s @ summary_events title @ [Complete (full_response s)],
                  updates = calls,
                  logged = log1 @ log2,
                  escaped = None\<rparr>))"

text \<open>The bytes the generator yields.\<close>

definition stream_bytes :: "gen_result \<Rightarrow> string list" where
  "stream_bytes g = map sse_frame (events g)"

subsection \<open>The endpoint\<close>

record response =
  content :: string
  status_code :: nat
  media_type :: string

datatype http_result =
    Response response
  | StreamingResponse gen_result string

definition error_response :: "nat \<Rightarrow> string \<Rightarrow> http_result" where
  "error_response code msg =
     Response \<lparr>content = json_dumps (JObj [(''error'', JStr msg)]),
               status_code = code,
               media_type = ''application/json''\<rparr>"

text \<open>The body of the \<^verbatim>\<open>try\<close> block of \<^verbatim>\<open>http_stream_chat\<close>.\<close>

definition http_stream_chat_try :: "env \<Rightarrow> StreamRequest \<Rightarrow> exn + http_result" where
  "http_stream_chat_try E request =
     (case get_account E (account_id request) of
        Inl e \<Rightarrow> Inl e
      | Inr account \<Rightarrow>
          if falsy account then Inr (error_response 400 ''Invalid account ID'')
          else (case get_chat E (conversation_id request) of
                  Inl e \<Rightarrow> Inl e
                | Inr chat \<Rightarrow>
                    if falsy chat then Inr (error_response 400 ''Invalid chat ID'')
                    else (case get_recent_messages E (conversation_id request) of
                            Inl e \<Rightarrow> Inl e
                          | Inr recent \<Rightarrow>
                              (case build_prompt E (message request) recent []
                                      (get (case account of Some d \<Rightarrow> d | None \<Rightarrow> []) ''system_prompt'') of
                                 Inl e \<Rightarrow> Inl e
                               | Inr prompt \<Rightarrow>
                                   Inr (StreamingResponse
                                          (stream_llm_response E prompt
                                             (account_id request)
                                             (conversation_id request)
                                             (original_message_id request)
                                             (get_default (case chat of Some d \<Rightarrow> d | None \<Rightarrow> [])
                                                ''model_profile'' ''default''))
                                          ''text/event-stream'')))))"

definition http_stream_chat :: "env \<Rightarrow> StreamRequest \<Rightarrow> http_result \<times> log_entry list" where
  "http_stream_chat E request =
     (case http_stream_chat_try E request of
        Inr r \<Rightarrow> (r, [])
      | Inl e \<Rightarrow> (error_response 500 (str e), [(EXCEPTION, ''Error in http_stream_chat: '' @ str e)]))"

text \<open>The events a result puts on the wire: none for a plain response.\<close>

fun emitted :: "http_result \<Rightarrow> sse_event list" where
  "emitted (Response r) = []"
| "emitted (StreamingResponse g mt) = events g"

section \<open>Vocabulary of the properties\<close>

text \<open>The \<^verbatim>\<open>text\<close> fields of the chunk events and of the complete events, in emission order.\<close>

fun chunk_texts :: "sse_event list \<Rightarrow> string list" where
  "chunk_texts [] = []"
| "chunk_texts (Chunk b # es) = b # chunk_texts es"
| "chunk_texts (e # es) = chunk_texts es"

fun complete_texts :: "sse_event list \<Rightarrow> string list" where
  "complete_texts [] = []"
| "complete_texts (Complete r # es) = r # complete_texts es"
| "complete_texts (e # es) = complete_texts es"

text \<open>
  The event grammar: one start, any number of chunks, an optional summary, one terminal
  event (complete or error), and nothing after it.
\<close>

fun is_terminal :: "sse_event \<Rightarrow> bool" where
  "is_terminal (Complete r) = True"
| "is_terminal (Error m) = True"
| "is_terminal e = False"

fun after_start :: "sse_event list \<Rightarrow> bool" where
  "after_start (Chunk b # es) = after_start es"
| "after_start [Summary t, e] = is_terminal e"
| "after_start [e] = is_terminal e"
| "after_start es = False"

fun sse_grammar :: "sse_event list \<Rightarrow> bool" where
  "sse_grammar (Start # es) = after_start es"
| "sse_grammar es = False"

text \<open>How the stream ends: with an exception that no handler of the generator catches, or not.\<close>

fun uncaught :: "raised option \<Rightarrow> bool" where
  "uncaught (Some (BaseOnly m)) = True"
| "uncaught (Some (Ordinary e)) = False"
| "uncaught None = False"

text \<open>
  The title as the specification words it: the first line cut to 50 characters, or, when
  that candidate is shorter than 10 characters, the first 50 characters with every newline
  replaced by a space.
\<close>

definition first_line :: "string \<Rightarrow> string" where
  "first_line s = takeWhile (\<lambda>c. c \<noteq> CHR 0x0A) s"

definition spec_title :: "string \<Rightarrow> string" where
  "spec_title full =
     (if length (take 50 (first_line full)) < 10
      then map (\<lambda>c. if c = CHR 0x0A then CHR '' '' else c) (take 50 full)
      else take 50 (first_line full))"

text \<open>
  A concrete environment for running the model: every lookup succeeds, the LLM stream yields
  the given fragments and then ends or raises, and the two faults are as given.
\<close>

definition test_env :: "string list \<Rightarrow> raised option \<Rightarrow> exn option \<Rightarrow> exn option \<Rightarrow> env" where
  "test_env fragments failure tfault ufault =
     \<lparr>get_account = (\<lambda>i. Inr (Some [(''system_prompt'', ''Be brief.'')])),
      get_chat = (\<lambda>i. Inr (Some [(''model_profile'', ''fast'')])),
      get_recent_messages = (\<lambda>i. Inr []),
      build_prompt = (\<lambda>m recent retrieved system_prompt. Inr m),
      run_llm_stream = (\<lambda>prompt profile. (fragments, failure)),
      title_fault = tfault,
      update_message = (\<lambda>i kw. ufault)\<rparr>"

definition test_request :: StreamRequest where
  "test_request = \<lparr>message = ''hello'', account_id = ''a1'', conversation_id = ''c1'',
                    original_message_id = ''m1''\<rparr>"

section \<open>Events on the wire\<close>

lemma inj_event_json: "event_json a = event_json b \<Longrightarrow> a = b"
  by (cases a; cases b) simp_all

lemma sse_frame_Start: \<open>sse_frame Start = ''data: {"type": "start", "data": {}}'' @ [CHR 0x0A, CHR 0x0A]\<close>
  by (simp add: sse_frame_def dumps_str_def escape_char_def)

lemma sse_frame_Chunk_example:
  \<open>sse_frame (Chunk (''Hi.'' @ [CHR 0x0A]))
     = ''data: {"type": "chunk", "data": {"text": "Hi.'' @ [CHR 0x5C, CHR ''n''] @ ''"}}''
         @ [CHR 0x0A, CHR 0x0A]\<close>
  by (simp add: sse_frame_def dumps_str_def escape_char_def)

section \<open>The streaming loop\<close>

lemma loop_body_full_response: "full_response (loop_body chunk s) = full_response s @ chunk"
  by (simp add: loop_body_def Let_def)

lemma stream_chunks_full_response:
  "full_response (stream_chunks s fragments) = full_response s @ concat fragments"
  by (induction fragments arbitrary: s) (simp_all add: loop_body_full_response)

lemma loop_body_yielded:
  "\<exists>bs. yielded (loop_body chunk s) = yielded s @ map Chunk bs
        \<and> concat bs @ buffer (loop_body chunk s) = buffer s @ chunk"
proof (cases "flush_now (buffer_size s + 1) chunk")
  case True
  then have "yielded (loop_body chunk s) = yielded s @ map Chunk [buffer s @ chunk]
      \<and> concat [buffer s @ chunk] @ buffer (loop_body chunk s) = buffer s @ chunk"
    by (simp add: loop_body_def Let_def)
  then show ?thesis by blast
next
  case False
  then have "yielded (loop_body chunk s) = yielded s @ map Chunk []
      \<and> concat [] @ buffer (loop_body chunk s) = buffer s @ chunk"
    by (simp add: loop_body_def Let_def)
  then show ?thesis by blast
qed

lemma stream_chunks_yielded:
  "\<exists>bs. yielded (stream_chunks s fragments) = yielded s @ map Chunk bs
        \<and> concat bs @ buffer (stream_chunks s fragments) = buffer s @ concat fragments"
proof (induction fragments arbitrary: s)
  case Nil
  have "yielded s = yielded s @ map Chunk [] \<and> concat [] @ buffer s = buffer s @ concat []"
    by simp
  then show ?case by (metis stream_chunks.simps(1))
next
  case (Cons chunk rest)
  obtain bs1 where b1: "yielded (loop_body chunk s) = yielded s @ map Chunk bs1"
      "concat bs1 @ buffer (loop_body chunk s) = buffer s @ chunk"
    using loop_body_yielded by blast
  obtain bs2 where b2:
      "yielded (stream_chunks (loop_body chunk s) rest) = yielded (loop_body chunk s) @ map Chunk bs2"
      "concat bs2 @ buffer (stream_chunks (loop_body chunk s) rest)
         = buffer (loop_body chunk s) @ concat rest"
    using Cons.IH by blast
  have "yielded (stream_chunks s (chunk # rest)) = yielded s @ map Chunk (bs1 @ bs2)"
    using b1 b2 by simp
  moreover have "concat (bs1 @ bs2) @ buffer (stream_chunks s (chunk # rest))
         = buffer s @ concat (chunk # rest)"
  proof -
    have "concat (bs1 @ bs2) @ buffer (stream_chunks s (chunk # rest))
        = concat bs1 @ (concat bs2 @ buffer (stream_chunks (loop_body chunk s) rest))"
      by simp
    also have "\<dots> = (concat bs1 @ buffer (loop_body chunk s)) @ concat rest"
      by (simp add: b2(2))
    also have "\<dots> = buffer s @ concat (chunk # rest)"
      by (simp add: b1(2))
    finally show ?thesis .
  qed
  ultimately show ?case by blast
qed

lemma after_start_chunks: "after_start (map Chunk bs @ es) = after_start es"
  by (induction bs) simp_all

lemma chunk_texts_chunks: "chunk_texts (map Chunk bs @ es) = bs @ chunk_texts es"
  by (induction bs) simp_all

section \<open>The generator on a stream that ends and on one that raises\<close>

lemma loop_init_yielded:
  "\<exists>bs. yielded (stream_chunks loop_init fragments) = Start # map Chunk bs
        \<and> concat bs @ buffer (stream_chunks loop_init fragments) = concat fragments"
  using stream_chunks_yielded [of loop_init fragments] by (simp add: loop_init_def)

lemma loop_init_full_response:
  "full_response (stream_chunks loop_init fragments) = concat fragments"
  by (simp add: stream_chunks_full_response loop_init_def)

lemma stream_llm_response_completes:
  assumes "run_llm_stream E prompt profile = (fragments, None)"
  shows "stream_llm_response E prompt aid cid mid profile =
         \<lparr>events = yielded (stream_chunks loop_init fragments)
                    @ summary_events (fst (create_summary E (concat fragments)))
                    @ [Complete (concat fragments)],
          updates = fst (persist E mid (concat fragments) (fst (create_summary E (concat fragments)))),
          logged = snd (create_summary E (concat fragments))
                   @ snd (persist E mid (concat fragments) (fst (create_summary E (concat fragments)))),
          escaped = None\<rparr>"
  using assms
  by (simp add: stream_llm_response_def loop_init_full_response split: prod.splits)

lemma stream_llm_response_fails:
  assumes "run_llm_stream E prompt profile = (fragments, Some (Ordinary e))"
  shows "stream_llm_response E prompt aid cid mid profile =
         \<lparr>events = yielded (stream_chunks loop_init fragments) @ [Error (str e)],
          updates = [],
          logged = [(EXCEPTION, ''Error in stream_llm_response: '' @ str e)],
          escaped = None\<rparr>"
  using assms by (simp add: stream_llm_response_def)

lemma stream_llm_response_escapes:
  assumes "run_llm_stream E prompt profile = (fragments, Some (BaseOnly m))"
  shows "stream_llm_response E prompt aid cid mid profile =
         \<lparr>events = yielded (stream_chunks loop_init fragments),
          updates = [],
          logged = [],
          escaped = Some (BaseOnly m)\<rparr>"
  using assms by (simp add: stream_llm_response_def)

section \<open>Title derivation\<close>

lemma split_not_Nil: "split sep s \<noteq> []"
  by (induction s) (auto split: list.splits)

lemma hd_split: "hd (split sep s) = takeWhile (\<lambda>c. c \<noteq> sep) s"
  by (induction s) (auto simp add: split_not_Nil split: list.splits)

lemma derive_title_spec:
  "derive_title full = (if length full > 10 then Some (spec_title full) else None)"
  by (simp add: derive_title_def spec_title_def first_line_def hd_split replace_def Let_def
           del: length_take)

lemma length_spec_title: "length full > 10 \<Longrightarrow> 10 \<le> length (spec_title full)"
  by (auto simp add: spec_title_def)

lemma create_summary_title:
  "fst (create_summary E full) =
     (case title_fault E of Some e \<Rightarrow> None
      | None \<Rightarrow> if length full > 10 then Some (spec_title full) else None)"
  by (simp add: create_summary_def derive_title_spec split: option.splits)

section \<open>The event grammar\<close>

lemma after_start_shape:
  "after_start es \<Longrightarrow>
     \<exists>bs opt t. es = map Chunk bs @ opt @ [t] \<and> (opt = [] \<or> (\<exists>x. opt = [Summary x])) \<and> is_terminal t"
proof (induction es rule: after_start.induct)
  case (1 b es)
  then obtain bs opt t where "es = map Chunk bs @ opt @ [t]"
      "opt = [] \<or> (\<exists>x. opt = [Summary x])" "is_terminal t"
    by auto
  then have "Chunk b # es = map Chunk (b # bs) @ opt @ [t]" by simp
  then show ?case
    using \<open>opt = [] \<or> (\<exists>x. opt = [Summary x])\<close> \<open>is_terminal t\<close> by blast
next
  case (2 t e)
  then have "[Summary t, e] = map Chunk [] @ [Summary t] @ [e] \<and> is_terminal e" by simp
  then show ?case by blast
qed (force | simp)+

lemma after_start_single: "after_start [e] = is_terminal e"
  by (cases e) simp_all

lemma sse_grammar_shape:
  "sse_grammar es \<longleftrightarrow>
     (\<exists>bs opt t. es = Start # map Chunk bs @ opt @ [t]
        \<and> (opt = [] \<or> (\<exists>x. opt = [Summary x])) \<and> is_terminal t)"
proof
  assume "sse_grammar es"
  then obtain rest where "es = Start # rest" "after_start rest"
    by (cases es rule: sse_grammar.cases) auto
  then show "\<exists>bs opt t. es = Start # map Chunk bs @ opt @ [t]
        \<and> (opt = [] \<or> (\<exists>x. opt = [Summary x])) \<and> is_terminal t"
    using after_start_shape [of rest] by auto
next
  assume "\<exists>bs opt t. es = Start # map Chunk bs @ opt @ [t]
        \<and> (opt = [] \<or> (\<exists>x. opt = [Summary x])) \<and> is_terminal t"
  then obtain bs opt t where e: "es = Start # map Chunk bs @ opt @ [t]"
      and o: "opt = [] \<or> (\<exists>x. opt = [Summary x])" and t: "is_terminal t"
    by blast
  have "after_start (opt @ [t])"
    using o t by (auto simp add: after_start_single)
  then show "sse_grammar es"
    by (simp add: e after_start_chunks)
qed

lemma summary_events_shape: "summary_events title = [] \<or> (\<exists>t. summary_events title = [Summary t])"
  by (cases title) auto

lemma after_start_only_chunks: "\<not> after_start (map Chunk bs)"
  by (induction bs) simp_all

lemma stream_llm_response_grammar:
  "sse_grammar (events (stream_llm_response E prompt aid cid mid profile))
     \<longleftrightarrow> \<not> uncaught (snd (run_llm_stream E prompt profile))"
proof -
  obtain fragments failure where r: "run_llm_stream E prompt profile = (fragments, failure)"
    by (cases "run_llm_stream E prompt profile")
  obtain bs where y: "yielded (stream_chunks loop_init fragments) = Start # map Chunk bs"
    using loop_init_yielded by blast
  show ?thesis
  proof (cases failure rule: uncaught.cases)
    case (1 m)
    then show ?thesis
      using r y by (simp add: stream_llm_response_escapes after_start_only_chunks)
  next
    case (2 e)
    then show ?thesis
      using r y by (simp add: stream_llm_response_fails after_start_chunks)
  next
    case 3
    then show ?thesis
      using r y summary_events_shape [of "fst (create_summary E (concat fragments))"]
      by (auto simp add: stream_llm_response_completes after_start_chunks)
  qed
qed

section \<open>What a run emits, stores and logs\<close>

lemma summary_events_title:
  "summary_events (fst (create_summary E full)) =
     (if title_fault E = None \<and> length full > 10 then [Summary (spec_title full)] else [])"
  using length_spec_title [of full]
  by (auto simp add: create_summary_title split: option.splits)

lemma clean_update_data:
  "clean [(''response'', Some full), (''title'', fst (create_summary E full))] =
     (if full = [] then []
      else (''response'', full) #
           (if title_fault E = None \<and> length full > 10 then [(''title'', spec_title full)] else []))"
  using length_spec_title [of full]
  by (auto simp add: create_summary_title split: option.splits)

lemma persist_calls:
  "fst (persist E mid full (fst (create_summary E full))) =
     (if mid = [] \<or> full = [] then []
      else [\<lparr>message_id = mid,
             kwargs = (''response'', full) #
               (if title_fault E = None \<and> length full > 10 then [(''title'', spec_title full)] else [])\<rparr>])"
  by (simp add: persist_def Let_def clean_update_data del: clean.simps split: option.splits)

lemma events_completes:
  assumes "run_llm_stream E prompt profile = (fragments, None)"
  shows "\<exists>bs. events (stream_llm_response E prompt aid cid mid profile) =
           Start # map Chunk bs
             @ (if title_fault E = None \<and> length (concat fragments) > 10
                then [Summary (spec_title (concat fragments))] else [])
             @ [Complete (concat fragments)]
         \<and> concat bs @ buffer (stream_chunks loop_init fragments) = concat fragments"
  using loop_init_yielded [of fragments]
  by (auto simp add: stream_llm_response_completes [OF assms] summary_events_title)

lemma events_fails:
  assumes "run_llm_stream E prompt profile = (fragments, Some (Ordinary e))"
  shows "\<exists>bs. events (stream_llm_response E prompt aid cid mid profile) =
           Start # map Chunk bs @ [Error (str e)]
         \<and> concat bs @ buffer (stream_chunks loop_init fragments) = concat fragments"
  using loop_init_yielded [of fragments]
  by (auto simp add: stream_llm_response_fails [OF assms])

lemma events_escapes:
  assumes "run_llm_stream E prompt profile = (fragments, Some (BaseOnly m))"
  shows "\<exists>bs. events (stream_llm_response E prompt aid cid mid profile) = Start # map Chunk bs
         \<and> concat bs @ buffer (stream_chunks loop_init fragments) = concat fragments"
  using loop_init_yielded [of fragments]
  by (auto simp add: stream_llm_response_escapes [OF assms])

lemma complete_texts_chunks: "complete_texts (map Chunk bs @ es) = complete_texts es"
  by (induction bs) simp_all

lemma persist_log_exception:
  assumes "fst (persist E mid full title) = [\<lparr>message_id = mid, kwargs = kw\<rparr>]"
    and "update_message E mid kw = Some e"
  shows "snd (persist E mid full title)
           = [(EXCEPTION, ''Error updating message '' @ mid @ '': '' @ str e)]"
  using assms
  by (auto simp add: persist_def Let_def split: if_splits option.splits)

lemma events_update_message_irrelevant:
  "events (stream_llm_response (E\<lparr>update_message := u\<rparr>) prompt aid cid mid profile)
     = events (stream_llm_response E prompt aid cid mid profile)"
proof -
  obtain fragments failure where r: "run_llm_stream E prompt profile = (fragments, failure)"
    by (cases "run_llm_stream E prompt profile")
  then have r': "run_llm_stream (E\<lparr>update_message := u\<rparr>) prompt profile = (fragments, failure)"
    by simp
  have t: "fst (create_summary (E\<lparr>update_message := u\<rparr>) (concat fragments))
      = fst (create_summary E (concat fragments))"
    by (simp add: create_summary_def)
  show ?thesis
  proof (cases failure rule: uncaught.cases)
    case (1 m)
    then show ?thesis
      using r r' by (simp add: stream_llm_response_escapes)
  next
    case (2 e)
    then show ?thesis
      using r r' by (simp add: stream_llm_response_fails)
  next
    case 3
    then show ?thesis
      using r r' t by (simp add: stream_llm_response_completes)
  qed
qed

lemma complete_text_is_concat:
  assumes "run_llm_stream E prompt profile = (fragments, None)"
  shows "complete_texts (events (stream_llm_response E prompt aid cid mid profile)) = [concat fragments]"
proof -
  obtain bs where "events (stream_llm_response E prompt aid cid mid profile) =
           Start # map Chunk bs
             @ (if title_fault E = None \<and> length (concat fragments) > 10
                then [Summary (spec_title (concat fragments))] else [])
             @ [Complete (concat fragments)]"
    using events_completes [OF assms] by blast
  then show ?thesis by (simp add: complete_texts_chunks)
qed

lemma chunk_texts_and_buffer:
  assumes "run_llm_stream E prompt profile = (fragments, None)"
  shows "concat (chunk_texts (events (stream_llm_response E prompt aid cid mid profile)))
           @ buffer (stream_chunks loop_init fragments) = concat fragments"
proof -
  obtain bs where "events (stream_llm_response E prompt aid cid mid profile) =
           Start # map Chunk bs
             @ (if title_fault E = None \<and> length (concat fragments) > 10
                then [Summary (spec_title (concat fragments))] else [])
             @ [Complete (concat fragments)]"
      "concat bs @ buffer (stream_chunks loop_init fragments) = concat fragments"
    using events_completes [OF assms] by blast
  then show ?thesis by (simp add: chunk_texts_chunks)
qed

lemma error_response_400_account:
  \<open>error_response 400 ''Invalid account ID'' =
     Response \<lparr>content = ''{"error": "Invalid account ID"}'', status_code = 400,
               media_type = ''application/json''\<rparr>\<close>
  by (simp add: error_response_def dumps_str_def escape_char_def)

lemma error_response_400_chat:
  \<open>error_response 400 ''Invalid chat ID'' =
     Response \<lparr>content = ''{"error": "Invalid chat ID"}'', status_code = 400,
               media_type = ''application/json''\<rparr>\<close>
  by (simp add: error_response_def dumps_str_def escape_char_def)

section \<open>Claims\<close>

subsection \<open>C1: chunk texts against the complete text\<close>

text \<open>
  Claim C1 says that the texts of the chunk events, concatenated, equal the text of the
  complete event, which equals the concatenation of the fragments. The second half holds
  (\<open>complete_text_is_concat\<close>). The first does not: the loop sends the buffer only when
  the flush condition holds, and what is left in it when the stream ends is never sent as a
  chunk (\<open>chunk_texts_and_buffer\<close>). On the single fragment \<^verbatim>\<open>Hi\<close> no chunk event is
  emitted at all, while the complete event carries \<^verbatim>\<open>Hi\<close>.
\<close>

theorem trailing_buffer_not_sent:
  "events (stream_llm_response (test_env [''Hi''] None None None) ''hello'' ''a1'' ''c1'' ''m1'' ''fast'')
     = [Start, Complete ''Hi'']
   \<and> concat (chunk_texts (events (stream_llm_response (test_env [''Hi''] None None None)
        ''hello'' ''a1'' ''c1'' ''m1'' ''fast''))) = ''''
   \<and> complete_texts (events (stream_llm_response (test_env [''Hi''] None None None)
        ''hello'' ''a1'' ''c1'' ''m1'' ''fast'')) = [''Hi'']"
proof -
  have run: "run_llm_stream (test_env [''Hi''] None None None) ''hello'' ''fast'' = ([''Hi''], None)"
    by (simp add: test_env_def)
  have "events (stream_llm_response (test_env [''Hi''] None None None) ''hello'' ''a1'' ''c1'' ''m1'' ''fast'')
     = [Start, Complete ''Hi'']"
    by (simp add: stream_llm_response_completes [OF run] summary_events_title loop_init_def
          loop_body_def flush_now_def max_buffer_size_def)
  then show ?thesis by simp
qed

subsection \<open>C2: the event grammar\<close>

text \<open>
  Claim C2 as stated, for every request that passes the checks made before the stream is
  opened, fails: the handler of the generator is \<^verbatim>\<open>except Exception\<close>, so when awaiting the
  LLM stream raises a \<^verbatim>\<open>BaseException\<close> outside that class (a cancellation), the exception
  leaves the generator and no terminal event is emitted. Here the stream is cancelled after
  two fragments, and the events are the start and one chunk.
\<close>

theorem cancelled_stream_no_terminal_event:
  "http_stream_chat (test_env [''Hi.'', ''there''] (Some (BaseOnly ''cancelled'')) None None) test_request
     = (StreamingResponse
          (stream_llm_response (test_env [''Hi.'', ''there''] (Some (BaseOnly ''cancelled'')) None None)
             ''hello'' ''a1'' ''c1'' ''m1'' ''fast'')
          ''text/event-stream'', [])
   \<and> emitted (fst (http_stream_chat
         (test_env [''Hi.'', ''there''] (Some (BaseOnly ''cancelled'')) None None) test_request))
       = [Start, Chunk ''Hi.'']
   \<and> \<not> sse_grammar (emitted (fst (http_stream_chat
         (test_env [''Hi.'', ''there''] (Some (BaseOnly ''cancelled'')) None None) test_request)))"
proof -
  let ?E = "test_env [''Hi.'', ''there''] (Some (BaseOnly ''cancelled'')) None None"
  have run: "run_llm_stream ?E ''hello'' ''fast'' = ([''Hi.'', ''there''], Some (BaseOnly ''cancelled''))"
    by (simp add: test_env_def)
  have res: "http_stream_chat ?E test_request
     = (StreamingResponse (stream_llm_response ?E ''hello'' ''a1'' ''c1'' ''m1'' ''fast'')
          ''text/event-stream'', [])"
    by (simp add: http_stream_chat_def http_stream_chat_try_def test_env_def test_request_def
          falsy.simps get_default_def get_def)
  have ev: "events (stream_llm_response ?E ''hello'' ''a1'' ''c1'' ''m1'' ''fast'') = [Start, Chunk ''Hi.'']"
    by (simp add: stream_llm_response_escapes [OF run] loop_init_def loop_body_def flush_now_def
          max_buffer_size_def)
  show ?thesis
    by (simp add: res ev)
qed

text \<open>
  Claim C2, amended: for a request that passes the checks made before the stream is opened
  (the account and the chat are found, the recent messages are read and the prompt is
  built), the endpoint returns the streaming response of \<^const>\<open>stream_llm_response\<close>. When the
  LLM stream ends normally or raises an exception of the class \<^verbatim>\<open>Exception\<close>, the events are
  one start, then chunks, then at most one summary, then one terminal event (complete or
  error) with nothing after it, a summary being followed by complete. When the stream raises
  any other exception, the events are the start and chunks only, with no terminal event.
\<close>

theorem valid_request_event_grammar:
  assumes "get_account E (account_id request) = Inr (Some account)"
    and "account \<noteq> []"
    and "get_chat E (conversation_id request) = Inr (Some chat)"
    and "chat \<noteq> []"
    and "get_recent_messages E (conversation_id request) = Inr recent"
    and "build_prompt E (message request) recent [] (get account ''system_prompt'') = Inr prompt"
  shows "http_stream_chat E request =
           (StreamingResponse
              (stream_llm_response E prompt (account_id request) (conversation_id request)
                 (original_message_id request) (get_default chat ''model_profile'' ''default''))
              ''text/event-stream'', [])
         \<and> (\<not> uncaught (snd (run_llm_stream E prompt (get_default chat ''model_profile'' ''default'')))
              \<longrightarrow> sse_grammar (emitted (fst (http_stream_chat E request)))
                \<and> (\<exists>bs opt t. emitted (fst (http_stream_chat E request)) = Start # map Chunk bs @ opt @ [t]
                      \<and> (opt = [] \<or> (\<exists>x. opt = [Summary x] \<and> (\<exists>r. t = Complete r)))
                      \<and> (\<exists>x. t = Complete x \<or> t = Error x)))
         \<and> (uncaught (snd (run_llm_stream E prompt (get_default chat ''model_profile'' ''default'')))
              \<longrightarrow> (\<exists>bs. emitted (fst (http_stream_chat E request)) = Start # map Chunk bs)
                \<and> \<not> sse_grammar (emitted (fst (http_stream_chat E request))))"
proof -
  let ?p = "get_default chat ''model_profile'' ''default''"
  let ?g = "stream_llm_response E prompt (account_id request) (conversation_id request)
                 (original_message_id request) ?p"
  have res: "http_stream_chat E request = (StreamingResponse ?g ''text/event-stream'', [])"
    using assms by (simp add: http_stream_chat_def http_stream_chat_try_def)
  have gr: "sse_grammar (events ?g) \<longleftrightarrow> \<not> uncaught (snd (run_llm_stream E prompt ?p))"
    by (rule stream_llm_response_grammar)
  obtain fragments failure where run: "run_llm_stream E prompt ?p = (fragments, failure)"
    by (cases "run_llm_stream E prompt ?p")
  have shape: "\<exists>bs opt t. events ?g = Start # map Chunk bs @ opt @ [t]
               \<and> (opt = [] \<or> (\<exists>x. opt = [Summary x] \<and> (\<exists>r. t = Complete r)))
               \<and> (\<exists>x. t = Complete x \<or> t = Error x)"
    if ok: "\<not> uncaught failure"
  proof (cases failure rule: uncaught.cases)
    case (1 m)
    then show ?thesis using ok by simp
  next
    case (2 e)
    then have "run_llm_stream E prompt ?p = (fragments, Some (Ordinary e))"
      using run by simp
    then obtain bs where "events ?g = Start # map Chunk bs @ [Error (str e)]"
      using events_fails by blast
    then have "events ?g = Start # map Chunk bs @ [] @ [Error (str e)]"
      by simp
    then show ?thesis by blast
  next
    case 3
    then have "run_llm_stream E prompt ?p = (fragments, None)"
      using run by simp
    then obtain bs where "events ?g = Start # map Chunk bs
             @ (if title_fault E = None \<and> length (concat fragments) > 10
                then [Summary (spec_title (concat fragments))] else [])
             @ [Complete (concat fragments)]"
      using events_completes by blast
    then have "events ?g = Start # map Chunk bs @ [] @ [Complete (concat fragments)]
        \<or> events ?g = Start # map Chunk bs @ [Summary (spec_title (concat fragments))]
               @ [Complete (concat fragments)]"
      by (simp split: if_splits)
    then show ?thesis by blast
  qed
  have only_chunks: "\<exists>bs. events ?g = Start # map Chunk bs"
    if bad: "uncaught failure"
  proof (cases failure rule: uncaught.cases)
    case (1 m)
    then have "run_llm_stream E prompt ?p = (fragments, Some (BaseOnly m))"
      using run by simp
    then show ?thesis
      using events_escapes by blast
  next
    case (2 e)
    then show ?thesis using bad by simp
  next
    case 3
    then show ?thesis using bad by simp
  qed
  show ?thesis using res gr shape only_chunks run by simp
qed

theorem valid_request_event_grammar_witness:
  "sse_grammar (emitted (fst (http_stream_chat
      (test_env [''Hello'', '' world.'', '' Bye''] None None None) test_request)))
   \<and> emitted (fst (http_stream_chat
      (test_env [''Hello'', '' world.'', '' Bye''] None None None) test_request))
     = [Start, Chunk ''Hello world.'', Summary ''Hello world. Bye'', Complete ''Hello world. Bye'']
   \<and> sse_grammar (emitted (fst (http_stream_chat
      (test_env [''Hello'', '' world.''] (Some (Ordinary (Exception ''boom''))) None None) test_request)))
   \<and> emitted (fst (http_stream_chat
      (test_env [''Hello'', '' world.''] (Some (Ordinary (Exception ''boom''))) None None) test_request))
     = [Start, Chunk ''Hello world.'', Error ''boom'']"
proof -
  let ?E = "test_env [''Hello'', '' world.'', '' Bye''] None None None"
  let ?F = "test_env [''Hello'', '' world.''] (Some (Ordinary (Exception ''boom''))) None None"
  have a: "get_account ?E (account_id test_request) = Inr (Some [(''system_prompt'', ''Be brief.'')])"
    "get_account ?F (account_id test_request) = Inr (Some [(''system_prompt'', ''Be brief.'')])"
    by (simp_all add: test_env_def)
  have c: "get_chat ?E (conversation_id test_request) = Inr (Some [(''model_profile'', ''fast'')])"
    "get_chat ?F (conversation_id test_request) = Inr (Some [(''model_profile'', ''fast'')])"
    by (simp_all add: test_env_def)
  have r: "get_recent_messages ?E (conversation_id test_request) = Inr []"
    "get_recent_messages ?F (conversation_id test_request) = Inr []"
    by (simp_all add: test_env_def)
  have b: "build_prompt ?E (message test_request) [] []
             (get [(''system_prompt'', ''Be brief.'')] ''system_prompt'') = Inr ''hello''"
    "build_prompt ?F (message test_request) [] []
             (get [(''system_prompt'', ''Be brief.'')] ''system_prompt'') = Inr ''hello''"
    by (simp_all add: test_env_def test_request_def)
  have run: "run_llm_stream ?E ''hello'' ''fast'' = ([''Hello'', '' world.'', '' Bye''], None)"
    by (simp add: test_env_def)
  have run': "run_llm_stream ?F ''hello'' ''fast''
      = ([''Hello'', '' world.''], Some (Ordinary (Exception ''boom'')))"
    by (simp add: test_env_def)
  have ev: "events (stream_llm_response ?E ''hello'' (account_id test_request)
              (conversation_id test_request) (original_message_id test_request) ''fast'')
       = [Start, Chunk ''Hello world.'', Summary ''Hello world. Bye'', Complete ''Hello world. Bye'']"
    apply (simp add: stream_llm_response_completes [OF run] create_summary_title)
    apply (simp add: test_env_def loop_init_def loop_body_def flush_now_def max_buffer_size_def
               spec_title_def first_line_def)
    done
  have ev': "events (stream_llm_response ?F ''hello'' (account_id test_request)
              (conversation_id test_request) (original_message_id test_request) ''fast'')
       = [Start, Chunk ''Hello world.'', Error ''boom'']"
    by (simp add: stream_llm_response_fails [OF run'] loop_init_def loop_body_def flush_now_def
          max_buffer_size_def)
  from valid_request_event_grammar [OF a(1) _ c(1) _ r(1) b(1)]
       valid_request_event_grammar [OF a(2) _ c(2) _ r(2) b(2)]
  show ?thesis
    by (simp add: get_default_def ev ev' run run')
qed

subsection \<open>C3: unknown account\<close>

text \<open>
  Claim C3: when the account lookup returns \<^verbatim>\<open>None\<close>, the endpoint returns the plain
  response with status 400 and body \<^verbatim>\<open>{"error": "Invalid account ID"}\<close>; no streaming
  response is made and no event is emitted.
\<close>

theorem unknown_account_rejected:
  assumes "get_account E (account_id request) = Inr None"
  shows \<open>http_stream_chat E request =
           (Response \<lparr>content = ''{"error": "Invalid account ID"}'', status_code = 400,
                      media_type = ''application/json''\<rparr>, [])
         \<and> emitted (fst (http_stream_chat E request)) = []\<close>
  using assms
  by (simp add: http_stream_chat_def http_stream_chat_try_def error_response_400_account)

theorem unknown_account_rejected_witness:
  \<open>get_account ((test_env [''Hi''] None None None)\<lparr>get_account := (\<lambda>i. Inr None)\<rparr>)
       (account_id test_request) = Inr None
   \<and> http_stream_chat ((test_env [''Hi''] None None None)\<lparr>get_account := (\<lambda>i. Inr None)\<rparr>)
       test_request =
           (Response \<lparr>content = ''{"error": "Invalid account ID"}'', status_code = 400,
                      media_type = ''application/json''\<rparr>, [])\<close>
  using unknown_account_rejected
    [of "(test_env [''Hi''] None None None)\<lparr>get_account := (\<lambda>i. Inr None)\<rparr>" test_request]
  by simp

subsection \<open>C4: unknown chat\<close>

text \<open>
  Claim C4: when the account lookup returns an account that passes the check of the code
  (a dict that is not empty) and the chat lookup returns \<^verbatim>\<open>None\<close>, the endpoint returns
  the plain response with status 400 and body \<^verbatim>\<open>{"error": "Invalid chat ID"}\<close>; no
  streaming response is made and no event is emitted.
\<close>

theorem unknown_chat_rejected:
  assumes "get_account E (account_id request) = Inr (Some account)"
    and "account \<noteq> []"
    and "get_chat E (conversation_id request) = Inr None"
  shows \<open>http_stream_chat E request =
           (Response \<lparr>content = ''{"error": "Invalid chat ID"}'', status_code = 400,
                      media_type = ''application/json''\<rparr>, [])
         \<and> emitted (fst (http_stream_chat E request)) = []\<close>
  using assms
  by (simp add: http_stream_chat_def http_stream_chat_try_def error_response_400_chat)

theorem unknown_chat_rejected_witness:
  \<open>get_account ((test_env [''Hi''] None None None)\<lparr>get_chat := (\<lambda>i. Inr None)\<rparr>)
       (account_id test_request) = Inr (Some [(''system_prompt'', ''Be brief.'')])
   \<and> get_chat ((test_env [''Hi''] None None None)\<lparr>get_chat := (\<lambda>i. Inr None)\<rparr>)
       (conversation_id test_request) = Inr None
   \<and> http_stream_chat ((test_env [''Hi''] None None None)\<lparr>get_chat := (\<lambda>i. Inr None)\<rparr>)
       test_request =
           (Response \<lparr>content = ''{"error": "Invalid chat ID"}'', status_code = 400,
                      media_type = ''application/json''\<rparr>, [])\<close>
  using unknown_chat_rejected
    [of "(test_env [''Hi''] None None None)\<lparr>get_chat := (\<lambda>i. Inr None)\<rparr>" test_request
        "[(''system_prompt'', ''Be brief.'')]"]
  by (simp add: test_env_def)

subsection \<open>C5: exceptions after the start event\<close>

text \<open>
  Claim C5 as stated, for an exception raised at any point after the start event, fails:
  the call to \<^verbatim>\<open>update_message\<close> has a handler of its own. Here the store raises on the
  one call it receives, and the events are the start and the complete event, with no error
  event.
\<close>

theorem persistence_exception_no_error_event:
  "update_message (test_env [''Hi''] None None (Some (Exception ''store down'')))
      ''m1'' [(''response'', ''Hi'')] = Some (Exception ''store down'')
   \<and> updates (stream_llm_response (test_env [''Hi''] None None (Some (Exception ''store down'')))
        ''hello'' ''a1'' ''c1'' ''m1'' ''fast'') = [\<lparr>message_id = ''m1'', kwargs = [(''response'', ''Hi'')]\<rparr>]
   \<and> events (stream_llm_response (test_env [''Hi''] None None (Some (Exception ''store down'')))
        ''hello'' ''a1'' ''c1'' ''m1'' ''fast'') = [Start, Complete ''Hi'']"
proof -
  let ?E = "test_env [''Hi''] None None (Some (Exception ''store down''))"
  have run: "run_llm_stream ?E ''hello'' ''fast'' = ([''Hi''], None)"
    by (simp add: test_env_def)
  have 1: "update_message ?E ''m1'' [(''response'', ''Hi'')] = Some (Exception ''store down'')"
    by (simp add: test_env_def)
  have 2: "updates (stream_llm_response ?E ''hello'' ''a1'' ''c1'' ''m1'' ''fast'')
      = [\<lparr>message_id = ''m1'', kwargs = [(''response'', ''Hi'')]\<rparr>]"
    by (simp add: stream_llm_response_completes [OF run] persist_calls)
  have 3: "events (stream_llm_response ?E ''hello'' ''a1'' ''c1'' ''m1'' ''fast'') = [Start, Complete ''Hi'']"
    by (simp add: stream_llm_response_completes [OF run] summary_events_title loop_init_def
          loop_body_def flush_now_def max_buffer_size_def)
  show ?thesis using 1 2 3 by simp
qed

text \<open>
  Claim C5, amended: when the LLM stream raises an exception of the class \<^verbatim>\<open>Exception\<close>
  (on being opened or after any number of fragments), the events are the start event, the
  chunks sent so far and one error event, the last one, whose payload is the message with
  the text of the exception; no complete event is emitted and the message store is not
  called. When the stream raises any other exception, it leaves the generator: neither an
  error nor a complete event is emitted. When the stream ends normally, no error event is
  emitted whatever the title derivation and \<^verbatim>\<open>update_message\<close> raise: the complete event
  is sent, and an exception raised there is caught by its own handler and logged.
\<close>

theorem llm_exception_error_event:
  "(run_llm_stream E prompt profile = (fragments, Some (Ordinary e)) \<longrightarrow>
      (\<exists>bs. events (stream_llm_response E prompt aid cid mid profile)
                 = Start # map Chunk bs @ [Error (str e)])
      \<and> event_json (Error (str e))
           = JObj [(''type'', JStr ''error''), (''data'', JObj [(''message'', JStr (str e))])]
      \<and> complete_texts (events (stream_llm_response E prompt aid cid mid profile)) = []
      \<and> updates (stream_llm_response E prompt aid cid mid profile) = []
      \<and> escaped (stream_llm_response E prompt aid cid mid profile) = None)
   \<and> (run_llm_stream E prompt profile = (fragments, Some (BaseOnly m)) \<longrightarrow>
      (\<forall>x. Error x \<notin> set (events (stream_llm_response E prompt aid cid mid profile)))
      \<and> complete_texts (events (stream_llm_response E prompt aid cid mid profile)) = []
      \<and> updates (stream_llm_response E prompt aid cid mid profile) = []
      \<and> escaped (stream_llm_response E prompt aid cid mid profile) = Some (BaseOnly m))
   \<and> (run_llm_stream E prompt profile = (fragments, None) \<longrightarrow>
      (\<forall>x. Error x \<notin> set (events (stream_llm_response E prompt aid cid mid profile)))
      \<and> complete_texts (events (stream_llm_response E prompt aid cid mid profile)) = [concat fragments]
      \<and> escaped (stream_llm_response E prompt aid cid mid profile) = None
      \<and> (title_fault E = Some e1 \<longrightarrow>
            (EXCEPTION, ''Error creating summary: '' @ str e1)
              \<in> set (logged (stream_llm_response E prompt aid cid mid profile)))
      \<and> (update_message E mid kw = Some e2
            \<and> updates (stream_llm_response E prompt aid cid mid profile)
                = [\<lparr>message_id = mid, kwargs = kw\<rparr>] \<longrightarrow>
            (EXCEPTION, ''Error updating message '' @ mid @ '': '' @ str e2)
              \<in> set (logged (stream_llm_response E prompt aid cid mid profile))))"
proof -
  let ?R = "stream_llm_response E prompt aid cid mid profile"
  have A: "(\<exists>bs. events ?R = Start # map Chunk bs @ [Error (str e)])
      \<and> event_json (Error (str e))
           = JObj [(''type'', JStr ''error''), (''data'', JObj [(''message'', JStr (str e))])]
      \<and> complete_texts (events ?R) = []
      \<and> updates ?R = []
      \<and> escaped ?R = None"
    if run: "run_llm_stream E prompt profile = (fragments, Some (Ordinary e))"
  proof -
    obtain bs where ev: "events ?R = Start # map Chunk bs @ [Error (str e)]"
      using events_fails [OF run] by blast
    have "\<exists>bs. events ?R = Start # map Chunk bs @ [Error (str e)]"
      using ev by blast
    moreover have "complete_texts (events ?R) = []"
      by (simp add: ev complete_texts_chunks)
    moreover have "updates ?R = []" "escaped ?R = None"
      by (simp_all add: stream_llm_response_fails [OF run])
    ultimately show ?thesis by simp
  qed
  have B: "(\<forall>x. Error x \<notin> set (events ?R))
      \<and> complete_texts (events ?R) = []
      \<and> updates ?R = []
      \<and> escaped ?R = Some (BaseOnly m)"
    if run: "run_llm_stream E prompt profile = (fragments, Some (BaseOnly m))"
  proof -
    obtain bs where ev: "events ?R = Start # map Chunk bs"
      using events_escapes [OF run] by blast
    have "\<forall>x. Error x \<notin> set (events ?R)"
      by (auto simp add: ev)
    moreover have "complete_texts (events ?R) = []"
      using complete_texts_chunks [of bs "[]"] by (simp add: ev)
    moreover have "updates ?R = []" "escaped ?R = Some (BaseOnly m)"
      by (simp_all add: stream_llm_response_escapes [OF run])
    ultimately show ?thesis by simp
  qed
  have C: "(\<forall>x. Error x \<notin> set (events ?R))
      \<and> complete_texts (events ?R) = [concat fragments]
      \<and> escaped ?R = None
      \<and> (title_fault E = Some e1 \<longrightarrow>
            (EXCEPTION, ''Error creating summary: '' @ str e1) \<in> set (logged ?R))
      \<and> (update_message E mid kw = Some e2 \<and> updates ?R = [\<lparr>message_id = mid, kwargs = kw\<rparr>] \<longrightarrow>
            (EXCEPTION, ''Error updating message '' @ mid @ '': '' @ str e2) \<in> set (logged ?R))"
    if run: "run_llm_stream E prompt profile = (fragments, None)"
  proof -
    obtain bs where ev: "events ?R =
           Start # map Chunk bs
             @ (if title_fault E = None \<and> length (concat fragments) > 10
                then [Summary (spec_title (concat fragments))] else [])
             @ [Complete (concat fragments)]"
      using events_completes [OF run] by blast
    have 1: "\<forall>x. Error x \<notin> set (events ?R)"
      by (auto simp add: ev)
    have 2: "complete_texts (events ?R) = [concat fragments]"
      by (rule complete_text_is_concat [OF run])
    have 3: "escaped ?R = None"
      by (simp add: stream_llm_response_completes [OF run])
    have 4: "(EXCEPTION, ''Error creating summary: '' @ str e1) \<in> set (logged ?R)"
      if "title_fault E = Some e1"
      using that by (simp add: stream_llm_response_completes [OF run] create_summary_def)
    have 5: "(EXCEPTION, ''Error updating message '' @ mid @ '': '' @ str e2) \<in> set (logged ?R)"
      if "update_message E mid kw = Some e2" and "updates ?R = [\<lparr>message_id = mid, kwargs = kw\<rparr>]"
    proof -
      have "fst (persist E mid (concat fragments) (fst (create_summary E (concat fragments))))
          = [\<lparr>message_id = mid, kwargs = kw\<rparr>]"
        using that(2) by (simp add: stream_llm_response_completes [OF run])
      then have "snd (persist E mid (concat fragments) (fst (create_summary E (concat fragments))))
           = [(EXCEPTION, ''Error updating message '' @ mid @ '': '' @ str e2)]"
        using that(1) by (rule persist_log_exception)
      then show ?thesis
        by (simp add: stream_llm_response_completes [OF run])
    qed
    show ?thesis using 1 2 3 4 5 by blast
  qed
  show ?thesis using A B C by blast
qed

theorem llm_exception_error_event_witness:
  "events (stream_llm_response (test_env [''Hi.'', ''there''] (Some (Ordinary (Exception ''boom''))) None None)
        ''hello'' ''a1'' ''c1'' ''m1'' ''fast'') = [Start, Chunk ''Hi.'', Error ''boom'']
   \<and> complete_texts (events (stream_llm_response
        (test_env [''Hi.'', ''there''] (Some (Ordinary (Exception ''boom''))) None None)
        ''hello'' ''a1'' ''c1'' ''m1'' ''fast'')) = []
   \<and> events (stream_llm_response (test_env [''Hi.'', ''there''] (Some (BaseOnly ''cancelled'')) None None)
        ''hello'' ''a1'' ''c1'' ''m1'' ''fast'') = [Start, Chunk ''Hi.'']
   \<and> escaped (stream_llm_response (test_env [''Hi.'', ''there''] (Some (BaseOnly ''cancelled'')) None None)
        ''hello'' ''a1'' ''c1'' ''m1'' ''fast'') = Some (BaseOnly ''cancelled'')
   \<and> events (stream_llm_response
        (test_env [''Hi.'', ''there''] None (Some (Exception ''no title'')) (Some (Exception ''no store'')))
        ''hello'' ''a1'' ''c1'' ''m1'' ''fast'') = [Start, Chunk ''Hi.'', Complete ''Hi.there'']
   \<and> (EXCEPTION, ''Error creating summary: no title'') \<in> set (logged (stream_llm_response
        (test_env [''Hi.'', ''there''] None (Some (Exception ''no title'')) (Some (Exception ''no store'')))
        ''hello'' ''a1'' ''c1'' ''m1'' ''fast''))
   \<and> (EXCEPTION, ''Error updating message m1: no store'') \<in> set (logged (stream_llm_response
        (test_env [''Hi.'', ''there''] None (Some (Exception ''no title'')) (Some (Exception ''no store'')))
        ''hello'' ''a1'' ''c1'' ''m1'' ''fast''))"
proof -
  let ?E = "test_env [''Hi.'', ''there''] (Some (Ordinary (Exception ''boom''))) None None"
  let ?F = "test_env [''Hi.'', ''there''] (Some (BaseOnly ''cancelled'')) None None"
  let ?G = "test_env [''Hi.'', ''there''] None (Some (Exception ''no title'')) (Some (Exception ''no store''))"
  have runE: "run_llm_stream ?E ''hello'' ''fast''
      = ([''Hi.'', ''there''], Some (Ordinary (Exception ''boom'')))"
    by (simp add: test_env_def)
  have runF: "run_llm_stream ?F ''hello'' ''fast'' = ([''Hi.'', ''there''], Some (BaseOnly ''cancelled''))"
    by (simp add: test_env_def)
  have runG: "run_llm_stream ?G ''hello'' ''fast'' = ([''Hi.'', ''there''], None)"
    by (simp add: test_env_def)
  have tf: "title_fault ?G = Some (Exception ''no title'')"
    by (simp add: test_env_def)
  have um: "update_message ?G ''m1'' [(''response'', ''Hi.there'')] = Some (Exception ''no store'')"
    by (simp add: test_env_def)
  have evE: "events (stream_llm_response ?E ''hello'' ''a1'' ''c1'' ''m1'' ''fast'')
      = [Start, Chunk ''Hi.'', Error ''boom'']"
    by (simp add: stream_llm_response_fails [OF runE] loop_init_def
          loop_body_def flush_now_def max_buffer_size_def)
  have evF: "events (stream_llm_response ?F ''hello'' ''a1'' ''c1'' ''m1'' ''fast'')
      = [Start, Chunk ''Hi.'']"
    by (simp add: stream_llm_response_escapes [OF runF] loop_init_def
          loop_body_def flush_now_def max_buffer_size_def)
  have evG: "events (stream_llm_response ?G ''hello'' ''a1'' ''c1'' ''m1'' ''fast'')
      = [Start, Chunk ''Hi.'', Complete ''Hi.there'']"
    by (simp add: stream_llm_response_completes [OF runG] summary_events_title tf loop_init_def
          loop_body_def flush_now_def max_buffer_size_def)
  have upG: "updates (stream_llm_response ?G ''hello'' ''a1'' ''c1'' ''m1'' ''fast'')
      = [\<lparr>message_id = ''m1'', kwargs = [(''response'', ''Hi.there'')]\<rparr>]"
    by (simp add: stream_llm_response_completes [OF runG] persist_calls tf)
  from llm_exception_error_event [of ?E "''hello''" "''fast''" "[''Hi.'', ''there'']"
         "Exception ''boom''" "''a1''" "''c1''" "''m1''"]
       llm_exception_error_event [of ?F "''hello''" "''fast''" "[''Hi.'', ''there'']" _
         "''a1''" "''c1''" "''m1''" "''cancelled''"]
       llm_exception_error_event [of ?G "''hello''" "''fast''" "[''Hi.'', ''there'']" _
         "''a1''" "''c1''" "''m1''" _  "Exception ''no title''"
         "[(''response'', ''Hi.there'')]" "Exception ''no store''"]
       runE runF runG tf um evE evF evG upG
  show ?thesis by simp
qed

subsection \<open>C6: title derivation\<close>

text \<open>
  Claim C6: on a stream that ends normally, the title block of the generator yields a title
  only when the full response is longer than 10 characters, and then it is the title of the
  specification (\<^const>\<open>spec_title\<close>: the first line cut to 50 characters, or the first 50
  characters with newlines replaced by spaces when that candidate is shorter than 10). That
  title is what the summary event, sent just before the complete event, and the update of
  the store carry. For a full response of at most 10 characters the title is absent: no
  summary event is emitted and the update has no \<^verbatim>\<open>title\<close>.
\<close>

theorem title_derivation:
  assumes "run_llm_stream E prompt profile = (fragments, None)"
  shows "derive_title (concat fragments)
           = (if length (concat fragments) > 10 then Some (spec_title (concat fragments)) else None)
       \<and> (title_fault E = None \<longrightarrow>
             fst (create_summary E (concat fragments)) = derive_title (concat fragments)
           \<and> (\<exists>bs. events (stream_llm_response E prompt aid cid mid profile)
                  = Start # map Chunk bs
                      @ (if length (concat fragments) > 10
                         then [Summary (spec_title (concat fragments))] else [])
                      @ [Complete (concat fragments)])
           \<and> (mid \<noteq> [] \<and> length (concat fragments) > 10 \<longrightarrow>
                 updates (stream_llm_response E prompt aid cid mid profile)
                   = [\<lparr>message_id = mid,
                       kwargs = [(''response'', concat fragments),
                                 (''title'', spec_title (concat fragments))]\<rparr>]))
       \<and> (length (concat fragments) \<le> 10 \<longrightarrow>
             fst (create_summary E (concat fragments)) = None
           \<and> (\<forall>t. Summary t \<notin> set (events (stream_llm_response E prompt aid cid mid profile)))
           \<and> (\<forall>c \<in> set (updates (stream_llm_response E prompt aid cid mid profile)).
                 kwargs c = [(''response'', concat fragments)]))"
proof -
  let ?R = "stream_llm_response E prompt aid cid mid profile"
  let ?full = "concat fragments"
  obtain bs where ev: "events ?R =
           Start # map Chunk bs
             @ (if title_fault E = None \<and> length ?full > 10 then [Summary (spec_title ?full)] else [])
             @ [Complete ?full]"
    using events_completes [OF assms] by blast
  have up: "updates ?R =
     (if mid = [] \<or> ?full = [] then []
      else [\<lparr>message_id = mid,
             kwargs = (''response'', ?full) #
               (if title_fault E = None \<and> length ?full > 10 then [(''title'', spec_title ?full)] else [])\<rparr>])"
    by (simp add: stream_llm_response_completes [OF assms] persist_calls)
  have 1: "derive_title ?full = (if length ?full > 10 then Some (spec_title ?full) else None)"
    by (rule derive_title_spec)
  have 2: "fst (create_summary E ?full) = derive_title ?full
           \<and> (\<exists>bs. events ?R = Start # map Chunk bs
                      @ (if length ?full > 10 then [Summary (spec_title ?full)] else [])
                      @ [Complete ?full])
           \<and> (mid \<noteq> [] \<and> length ?full > 10 \<longrightarrow>
                 updates ?R = [\<lparr>message_id = mid,
                       kwargs = [(''response'', ?full), (''title'', spec_title ?full)]\<rparr>])"
    if tf: "title_fault E = None"
  proof -
    have a: "fst (create_summary E ?full) = derive_title ?full"
      using tf by (simp add: create_summary_def)
    have "events ?R = Start # map Chunk bs
                      @ (if length ?full > 10 then [Summary (spec_title ?full)] else [])
                      @ [Complete ?full]"
      using ev tf by simp
    then have b: "\<exists>bs. events ?R = Start # map Chunk bs
                      @ (if length ?full > 10 then [Summary (spec_title ?full)] else [])
                      @ [Complete ?full]"
      by blast
    have c: "updates ?R = [\<lparr>message_id = mid,
                       kwargs = [(''response'', ?full), (''title'', spec_title ?full)]\<rparr>]"
      if "mid \<noteq> []" and "length ?full > 10"
    proof -
      have "length ?full \<noteq> 0" using that(2) by linarith
      then have "?full \<noteq> []" by (simp del: length_concat concat_eq_Nil_conv)
      then show ?thesis using up tf that by simp
    qed
    show ?thesis using a b c by blast
  qed
  have 3: "fst (create_summary E ?full) = None
           \<and> (\<forall>t. Summary t \<notin> set (events ?R))
           \<and> (\<forall>c \<in> set (updates ?R). kwargs c = [(''response'', ?full)])"
    if short: "length ?full \<le> 10"
  proof -
    have a: "fst (create_summary E ?full) = None"
      using short by (simp add: create_summary_title split: option.splits)
    have b: "\<forall>t. Summary t \<notin> set (events ?R)"
      using short by (auto simp add: ev)
    have c: "\<forall>c \<in> set (updates ?R). kwargs c = [(''response'', ?full)]"
      using short by (simp add: up)
    show ?thesis using a b c by blast
  qed
  show ?thesis using 1 2 3 by blast
qed

theorem title_derivation_witness:
  "events (stream_llm_response
      (test_env [''Hello'', '' world'', [CHR 0x0A], ''This '', ''continues''] None None None)
      ''hello'' ''a1'' ''c1'' ''m1'' ''fast'')
     = [Start, Chunk (''Hello world'' @ [CHR 0x0A]), Summary ''Hello world'',
        Complete (''Hello world'' @ [CHR 0x0A] @ ''This continues'')]
   \<and> events (stream_llm_response
      (test_env [''Hi'', [CHR 0x0A], ''there, more text follows''] None None None)
      ''hello'' ''a1'' ''c1'' ''m1'' ''fast'')
     = [Start, Chunk (''Hi'' @ [CHR 0x0A]), Summary ''Hi there, more text follows'',
        Complete (''Hi'' @ [CHR 0x0A] @ ''there, more text follows'')]
   \<and> updates (stream_llm_response
      (test_env [''Hi'', [CHR 0x0A], ''there, more text follows''] None None None)
      ''hello'' ''a1'' ''c1'' ''m1'' ''fast'')
     = [\<lparr>message_id = ''m1'',
         kwargs = [(''response'', ''Hi'' @ [CHR 0x0A] @ ''there, more text follows''),
                   (''title'', ''Hi there, more text follows'')]\<rparr>]
   \<and> derive_title ''0123456789'' = None
   \<and> events (stream_llm_response (test_env [''0123'', ''456789''] None None None)
        ''hello'' ''a1'' ''c1'' ''m1'' ''fast'') = [Start, Complete ''0123456789'']"
proof -
  let ?A = "test_env [''Hello'', '' world'', [CHR 0x0A], ''This '', ''continues''] None None None"
  let ?B = "test_env [''Hi'', [CHR 0x0A], ''there, more text follows''] None None None"
  let ?C = "test_env [''0123'', ''456789''] None None None"
  have runA: "run_llm_stream ?A ''hello'' ''fast''
      = ([''Hello'', '' world'', [CHR 0x0A], ''This '', ''continues''], None)"
    by (simp add: test_env_def)
  have runB: "run_llm_stream ?B ''hello'' ''fast''
      = ([''Hi'', [CHR 0x0A], ''there, more text follows''], None)"
    by (simp add: test_env_def)
  have runC: "run_llm_stream ?C ''hello'' ''fast'' = ([''0123'', ''456789''], None)"
    by (simp add: test_env_def)
  have tf: "title_fault ?A = None" "title_fault ?B = None" "title_fault ?C = None"
    by (simp_all add: test_env_def)
  have chA: "yielded (stream_chunks loop_init [''Hello'', '' world'', [CHR 0x0A], ''This '', ''continues''])
      = Start # map Chunk [''Hello world'' @ [CHR 0x0A]]"
    by (simp add: loop_init_def loop_body_def flush_now_def max_buffer_size_def)
  have chB: "yielded (stream_chunks loop_init [''Hi'', [CHR 0x0A], ''there, more text follows''])
      = Start # map Chunk [''Hi'' @ [CHR 0x0A]]"
    by (simp add: loop_init_def loop_body_def flush_now_def max_buffer_size_def)
  have chC: "yielded (stream_chunks loop_init [''0123'', ''456789'']) = Start # map Chunk []"
    by (simp add: loop_init_def loop_body_def flush_now_def max_buffer_size_def)
  have A: "events (stream_llm_response ?A ''hello'' ''a1'' ''c1'' ''m1'' ''fast'')
     = [Start, Chunk (''Hello world'' @ [CHR 0x0A]), Summary ''Hello world'',
        Complete (''Hello world'' @ [CHR 0x0A] @ ''This continues'')]"
    using title_derivation [OF runA, of "''a1''" "''c1''" "''m1''"] tf(1) chA
    by (auto simp add: stream_llm_response_completes [OF runA] spec_title_def first_line_def)
  have B: "events (stream_llm_response ?B ''hello'' ''a1'' ''c1'' ''m1'' ''fast'')
     = [Start, Chunk (''Hi'' @ [CHR 0x0A]), Summary ''Hi there, more text follows'',
        Complete (''Hi'' @ [CHR 0x0A] @ ''there, more text follows'')]
     \<and> updates (stream_llm_response ?B ''hello'' ''a1'' ''c1'' ''m1'' ''fast'')
     = [\<lparr>message_id = ''m1'',
         kwargs = [(''response'', ''Hi'' @ [CHR 0x0A] @ ''there, more text follows''),
                   (''title'', ''Hi there, more text follows'')]\<rparr>]"
    using title_derivation [OF runB, of "''a1''" "''c1''" "''m1''"] tf(2) chB
    by (auto simp add: stream_llm_response_completes [OF runB] spec_title_def first_line_def)
  have C: "derive_title ''0123456789'' = None
     \<and> events (stream_llm_response ?C ''hello'' ''a1'' ''c1'' ''m1'' ''fast'')
          = [Start, Complete ''0123456789'']"
    using title_derivation [OF runC, of "''a1''" "''c1''" "''m1''"] tf(3) chC
    by (auto simp add: stream_llm_response_completes [OF runC])
  show ?thesis using A B C by simp
qed

subsection \<open>C7: the update of the message store\<close>

text \<open>
  Claim C7 as stated, for every completed stream with a message id, fails when the full
  response is empty: the filter drops the empty \<^verbatim>\<open>response\<close> as well, the cleaned dict
  is empty and the guard \<^verbatim>\<open>if update_data_cleaned\<close> skips the call.
\<close>

theorem empty_response_no_update:
  "original_message_id test_request \<noteq> ''''
   \<and> run_llm_stream (test_env [] None None None) (message test_request) ''fast'' = ([], None)
   \<and> events (stream_llm_response (test_env [] None None None) (message test_request)
        (account_id test_request) (conversation_id test_request)
        (original_message_id test_request) ''fast'') = [Start, Complete '''']
   \<and> updates (stream_llm_response (test_env [] None None None) (message test_request)
        (account_id test_request) (conversation_id test_request)
        (original_message_id test_request) ''fast'') = []"
proof -
  have run: "run_llm_stream (test_env [] None None None) (message test_request) ''fast'' = ([], None)"
    by (simp add: test_env_def)
  show ?thesis
    by (simp add: stream_llm_response_completes [OF run] summary_events_title persist_calls
          loop_init_def)
       (simp add: test_env_def test_request_def)
qed

text \<open>
  Claim C7, amended: when the stream completes and the message id is not empty, the store
  receives exactly one update call if the full response is not empty, and none if it is
  empty. The call is for that message id, with \<^verbatim>\<open>response\<close> the full response, followed
  by \<^verbatim>\<open>title\<close> the derived title when there is one, and without \<^verbatim>\<open>title\<close> otherwise.
\<close>

theorem one_update_call:
  assumes "run_llm_stream E prompt profile = (fragments, None)"
    and "mid \<noteq> []"
  shows "updates (stream_llm_response E prompt aid cid mid profile) =
          (if concat fragments = [] then []
           else [\<lparr>message_id = mid,
                  kwargs = (''response'', concat fragments) #
                    (if title_fault E = None \<and> length (concat fragments) > 10
                     then [(''title'', spec_title (concat fragments))] else [])\<rparr>])"
  using assms(2) by (simp add: stream_llm_response_completes [OF assms(1)] persist_calls)

theorem one_update_call_witness:
  "updates (stream_llm_response
      (test_env [''Hello'', '' world'', [CHR 0x0A], ''This '', ''continues''] None None None)
      ''hello'' ''a1'' ''c1'' ''m1'' ''fast'')
    = [\<lparr>message_id = ''m1'',
        kwargs = [(''response'', ''Hello world'' @ [CHR 0x0A] @ ''This continues''),
                  (''title'', ''Hello world'')]\<rparr>]"
proof -
  let ?E = "test_env [''Hello'', '' world'', [CHR 0x0A], ''This '', ''continues''] None None None"
  have run: "run_llm_stream ?E ''hello'' ''fast''
      = ([''Hello'', '' world'', [CHR 0x0A], ''This '', ''continues''], None)"
    by (simp add: test_env_def)
  have m: "''m1'' \<noteq> []" by simp
  have t: "title_fault ?E = None" by (simp add: test_env_def)
  show ?thesis
    using one_update_call [OF run m, of "''a1''" "''c1''"] t
    by (simp add: spec_title_def first_line_def)
qed

subsection \<open>C8: swallowed failures\<close>

text \<open>
  Claim C8: on a stream that ends normally, whatever happens in the title derivation and
  in the persistence update, the last event is the complete event with the full response
  and no error event is emitted; the events do not depend on what \<^verbatim>\<open>update_message\<close>
  does, and an exception of the call made is logged. When the title derivation fails, the
  title is absent: no summary event, no \<^verbatim>\<open>title\<close> in the update, and the failure is
  logged.
\<close>

theorem swallowed_failures:
  assumes "run_llm_stream E prompt profile = (fragments, None)"
  shows "last (events (stream_llm_response E prompt aid cid mid profile)) = Complete (concat fragments)
     \<and> (\<forall>m. Error m \<notin> set (events (stream_llm_response E prompt aid cid mid profile)))
     \<and> events (stream_llm_response (E\<lparr>update_message := u\<rparr>) prompt aid cid mid profile)
         = events (stream_llm_response E prompt aid cid mid profile)
     \<and> (update_message E mid kw = Some e
          \<and> updates (stream_llm_response E prompt aid cid mid profile) = [\<lparr>message_id = mid, kwargs = kw\<rparr>]
        \<longrightarrow> (EXCEPTION, ''Error updating message '' @ mid @ '': '' @ str e)
              \<in> set (logged (stream_llm_response E prompt aid cid mid profile)))
     \<and> (title_fault E = Some e'
        \<longrightarrow> fst (create_summary E (concat fragments)) = None
            \<and> (\<forall>t. Summary t \<notin> set (events (stream_llm_response E prompt aid cid mid profile)))
            \<and> (\<forall>c \<in> set (updates (stream_llm_response E prompt aid cid mid profile)).
                  kwargs c = [(''response'', concat fragments)])
            \<and> (EXCEPTION, ''Error creating summary: '' @ str e')
                 \<in> set (logged (stream_llm_response E prompt aid cid mid profile)))"
proof -
  let ?R = "stream_llm_response E prompt aid cid mid profile"
  let ?full = "concat fragments"
  obtain bs where ev: "events ?R =
           Start # map Chunk bs
             @ (if title_fault E = None \<and> length ?full > 10
                then [Summary (spec_title ?full)] else [])
             @ [Complete ?full]"
    using events_completes [OF assms] by blast
  have 1: "last (events ?R) = Complete ?full"
    by (simp add: ev)
  have 2: "\<forall>m. Error m \<notin> set (events ?R)"
    by (auto simp add: ev)
  have 3: "events (stream_llm_response (E\<lparr>update_message := u\<rparr>) prompt aid cid mid profile)
         = events ?R"
    by (rule events_update_message_irrelevant)
  have 4: "(EXCEPTION, ''Error updating message '' @ mid @ '': '' @ str e) \<in> set (logged ?R)"
    if "update_message E mid kw = Some e" and "updates ?R = [\<lparr>message_id = mid, kwargs = kw\<rparr>]"
  proof -
    have "fst (persist E mid ?full (fst (create_summary E ?full))) = [\<lparr>message_id = mid, kwargs = kw\<rparr>]"
      using that(2) by (simp add: stream_llm_response_completes [OF assms])
    then have "snd (persist E mid ?full (fst (create_summary E ?full)))
           = [(EXCEPTION, ''Error updating message '' @ mid @ '': '' @ str e)]"
      using that(1) by (rule persist_log_exception)
    then show ?thesis
      by (simp add: stream_llm_response_completes [OF assms])
  qed
  have 5: "fst (create_summary E ?full) = None
            \<and> (\<forall>t. Summary t \<notin> set (events ?R))
            \<and> (\<forall>c \<in> set (updates ?R). kwargs c = [(''response'', ?full)])
            \<and> (EXCEPTION, ''Error creating summary: '' @ str e') \<in> set (logged ?R)"
    if tf: "title_fault E = Some e'"
  proof -
    have a: "fst (create_summary E ?full) = None"
      using tf by (simp add: create_summary_def)
    have b: "\<forall>t. Summary t \<notin> set (events ?R)"
      using tf by (auto simp add: ev)
    have c: "\<forall>c \<in> set (updates ?R). kwargs c = [(''response'', ?full)]"
      using tf by (simp add: stream_llm_response_completes [OF assms] persist_calls)
    have d: "(EXCEPTION, ''Error creating summary: '' @ str e') \<in> set (logged ?R)"
      using tf by (simp add: stream_llm_response_completes [OF assms] create_summary_def)
    show ?thesis using a b c d by blast
  qed
  show ?thesis using 1 2 3 4 5 by blast
qed

theorem swallowed_failures_witness:
  "events (stream_llm_response
      (test_env [''A long answer, '', ''with a tail''] None (Some (Exception ''no memory''))
         (Some (Exception ''store down'')))
      ''hello'' ''a1'' ''c1'' ''m1'' ''fast'') = [Start, Complete ''A long answer, with a tail'']
   \<and> updates (stream_llm_response
      (test_env [''A long answer, '', ''with a tail''] None (Some (Exception ''no memory''))
         (Some (Exception ''store down'')))
      ''hello'' ''a1'' ''c1'' ''m1'' ''fast'')
       = [\<lparr>message_id = ''m1'', kwargs = [(''response'', ''A long answer, with a tail'')]\<rparr>]
   \<and> (EXCEPTION, ''Error updating message m1: store down'') \<in> set (logged (stream_llm_response
      (test_env [''A long answer, '', ''with a tail''] None (Some (Exception ''no memory''))
         (Some (Exception ''store down'')))
      ''hello'' ''a1'' ''c1'' ''m1'' ''fast''))
   \<and> (EXCEPTION, ''Error creating summary: no memory'') \<in> set (logged (stream_llm_response
      (test_env [''A long answer, '', ''with a tail''] None (Some (Exception ''no memory''))
         (Some (Exception ''store down'')))
      ''hello'' ''a1'' ''c1'' ''m1'' ''fast''))"
proof -
  let ?E = "test_env [''A long answer, '', ''with a tail''] None (Some (Exception ''no memory''))
         (Some (Exception ''store down''))"
  let ?R = "stream_llm_response ?E ''hello'' ''a1'' ''c1'' ''m1'' ''fast''"
  have run: "run_llm_stream ?E ''hello'' ''fast'' = ([''A long answer, '', ''with a tail''], None)"
    by (simp add: test_env_def)
  have tf: "title_fault ?E = Some (Exception ''no memory'')"
    by (simp add: test_env_def)
  have um: "update_message ?E ''m1'' [(''response'', ''A long answer, with a tail'')]
      = Some (Exception ''store down'')"
    by (simp add: test_env_def)
  have ev: "events ?R = [Start, Complete ''A long answer, with a tail'']"
    by (simp add: stream_llm_response_completes [OF run] summary_events_title tf loop_init_def
          loop_body_def flush_now_def max_buffer_size_def)
  have up: "updates ?R = [\<lparr>message_id = ''m1'', kwargs = [(''response'', ''A long answer, with a tail'')]\<rparr>]"
    by (simp add: stream_llm_response_completes [OF run] persist_calls tf)
  from swallowed_failures [OF run, of "''a1''" "''c1''" "''m1''" "update_message ?E"
      "[(''response'', ''A long answer, with a tail'')]" "Exception ''store down''"
      "Exception ''no memory''"] tf um ev up
  show ?thesis by simp
qed

subsection \<open>C9: a stream without fragments\<close>

text \<open>
  Claim C9: when the LLM stream yields no fragment and ends, the events are the start
  event and the complete event with the empty text, and the message store is not called,
  whatever the message id.
\<close>

theorem empty_stream_events:
  assumes "run_llm_stream E prompt profile = ([], None)"
  shows "events (stream_llm_response E prompt aid cid mid profile) = [Start, Complete '''']
       \<and> updates (stream_llm_response E prompt aid cid mid profile) = []"
  using assms
  by (simp add: stream_llm_response_completes create_summary_title loop_init_def persist_def
           split: option.splits)

theorem empty_stream_events_witness:
  "run_llm_stream (test_env [] None None None) ''hello'' ''fast'' = ([], None)
   \<and> events (stream_llm_response (test_env [] None None None) ''hello'' ''a1'' ''c1'' ''m1'' ''fast'')
       = [Start, Complete '''']
   \<and> updates (stream_llm_response (test_env [] None None None) ''hello'' ''a1'' ''c1'' ''m1'' ''fast'')
       = []"
  using empty_stream_events [of "test_env [] None None None" "''hello''" "''fast''" "''a1''" "''c1''" "''m1''"]
  by (simp add: test_env_def)

subsection \<open>C10: the summary event of a long response\<close>

text \<open>
  Claim C10: when the stream ends normally, the full response is longer than 10
  characters and the title derivation does not raise, a summary event is emitted just
  before the complete event, and its title is not empty. The title may be blank: a response
  of 11 spaces has the title of 11 spaces.
\<close>

theorem summary_title_not_empty:
  assumes "run_llm_stream E prompt profile = (fragments, None)"
    and "title_fault E = None"
    and "length (concat fragments) > 10"
  shows "(\<exists>bs. events (stream_llm_response E prompt aid cid mid profile)
             = Start # map Chunk bs
                 @ [Summary (spec_title (concat fragments)), Complete (concat fragments)])
       \<and> derive_title (concat fragments) = Some (spec_title (concat fragments))
       \<and> spec_title (concat fragments) \<noteq> []
       \<and> derive_title (replicate 11 (CHR '' '')) = Some (replicate 11 (CHR '' ''))"
proof -
  obtain bs where "events (stream_llm_response E prompt aid cid mid profile) =
           Start # map Chunk bs
             @ (if title_fault E = None \<and> length (concat fragments) > 10
                then [Summary (spec_title (concat fragments))] else [])
             @ [Complete (concat fragments)]"
    using events_completes [OF assms(1)] by blast
  then have "events (stream_llm_response E prompt aid cid mid profile)
             = Start # map Chunk bs
                 @ [Summary (spec_title (concat fragments)), Complete (concat fragments)]"
    using assms(2,3) by simp
  then have 1: "\<exists>bs. events (stream_llm_response E prompt aid cid mid profile)
             = Start # map Chunk bs
                 @ [Summary (spec_title (concat fragments)), Complete (concat fragments)]"
    by blast
  have 2: "derive_title (concat fragments) = Some (spec_title (concat fragments))"
    using assms(3) by (simp add: derive_title_spec)
  have 3: "spec_title (concat fragments) \<noteq> []"
    using length_spec_title [OF assms(3)] by auto
  have 4: "derive_title (replicate 11 (CHR '' '')) = Some (replicate 11 (CHR '' ''))"
    by (simp add: derive_title_spec spec_title_def first_line_def)
  show ?thesis using 1 2 3 4 by blast
qed

theorem summary_title_not_empty_witness:
  "events (stream_llm_response (test_env [''     '', ''      ''] None None None)
      ''hello'' ''a1'' ''c1'' ''m1'' ''fast'')
     = [Start, Summary ''           '', Complete ''           '']"
proof -
  let ?E = "test_env [''     '', ''      ''] None None None"
  have run: "run_llm_stream ?E ''hello'' ''fast'' = ([''     '', ''      ''], None)"
    by (simp add: test_env_def)
  have tf: "title_fault ?E = None"
    by (simp add: test_env_def)
  have len: "length (concat [''     '', ''      '']) > 10"
    by simp
  have ev: "events (stream_llm_response ?E ''hello'' ''a1'' ''c1'' ''m1'' ''fast'')
      = [Start, Summary ''           '', Complete ''           '']"
    by (simp add: stream_llm_response_completes [OF run] summary_events_title tf loop_init_def
          loop_body_def flush_now_def max_buffer_size_def spec_title_def first_line_def)
  from summary_title_not_empty [OF run tf len, of "''a1''" "''c1''" "''m1''"] ev
  show ?thesis by simp
qed

end
